theory Spec2Isabelle
  imports Complex_Main "HOL-Library.Char_ord" "HOL-Library.List_Lexorder"
begin

section \<open>Data model\<close>

text \<open>
  The analytics service of \<^verbatim>\<open>src/app/api_service.py\<close> works on the pandas data frames
  loaded once by \<^verbatim>\<open>load_data\<close>. A data frame is modelled as the list of its rows, in row
  order. A timestamp is a number of seconds since 1970-01-01T00:00:00 (sub-second
  resolution is not modelled). A \<^verbatim>\<open>float64\<close> column value read from the CSV file is a
  real number: arithmetic is exact, so rounding errors of IEEE arithmetic, overflow and
  signed zeros are outside the model, and missing values (NaN / NaT cells in the input)
  are excluded. The special values that the computations themselves produce (NaN for the
  mean of nothing, infinities for a division by zero) are modelled, see \<open>float64\<close>.
\<close>

type_synonym timestamp = int

record customer =
  c_customer_id :: string
  registration_date :: timestamp
  age :: "nat option"
  c_segment :: string

record transaction =
  transaction_id :: string
  customer_id :: string
  transaction_date :: timestamp
  amount :: real
  status :: string

record datasets =
  customers :: "customer list"
  transactions :: "transaction list"

text \<open>
  Exceptions. \<open>HTTPExceptionFrom c e\<close> is \<^verbatim>\<open>HTTPException(status_code=c, detail=str(e))\<close>,
  what every endpoint's \<^verbatim>\<open>except Exception as e\<close> handler raises.
\<close>

datatype py_exception =
    ValueError string
  | HTTPException nat string
  | HTTPExceptionFrom nat py_exception

fun status_code :: "py_exception \<Rightarrow> nat option" where
  "status_code (ValueError _) = None"
| "status_code (HTTPException c _) = Some c"
| "status_code (HTTPExceptionFrom c _) = Some c"

text \<open>The \<^verbatim>\<open>try: ... except Exception as e: raise HTTPException(500, str(e))\<close> frame.\<close>

definition try_except_500 :: "py_exception + 'a \<Rightarrow> py_exception + 'a" where
  "try_except_500 r = (case r of Inl e \<Rightarrow> Inl (HTTPExceptionFrom 500 e) | Inr v \<Rightarrow> Inr v)"

subsection \<open>Floating-point results\<close>

datatype float64 = Num real | PInf | NInf | NaN

fun fl_add :: "float64 \<Rightarrow> float64 \<Rightarrow> float64" where
  "fl_add (Num a) (Num b) = Num (a + b)"
| "fl_add NaN _ = NaN"
| "fl_add _ NaN = NaN"
| "fl_add PInf NInf = NaN"
| "fl_add NInf PInf = NaN"
| "fl_add PInf _ = PInf"
| "fl_add _ PInf = PInf"
| "fl_add NInf _ = NInf"
| "fl_add _ NInf = NInf"

fun fl_neg :: "float64 \<Rightarrow> float64" where
  "fl_neg (Num a) = Num (- a)"
| "fl_neg PInf = NInf"
| "fl_neg NInf = PInf"
| "fl_neg NaN = NaN"

definition fl_sub :: "float64 \<Rightarrow> float64 \<Rightarrow> float64" where
  "fl_sub a b = fl_add a (fl_neg b)"

text \<open>Multiplication by a positive finite constant (\<^verbatim>\<open>3 * std\<close>, \<^verbatim>\<open>(...) * 100\<close>).\<close>

fun fl_scale :: "real \<Rightarrow> float64 \<Rightarrow> float64" where
  "fl_scale c (Num a) = Num (c * a)"
| "fl_scale c x = x"

text \<open>Division of two finite numpy floats: a zero divisor gives an infinity or NaN
  (with a warning), never an exception.\<close>

definition fl_div :: "real \<Rightarrow> real \<Rightarrow> float64" where
  "fl_div a b =
     (if b \<noteq> 0 then Num (a / b)
      else if a > 0 then PInf else if a < 0 then NInf else NaN)"

text \<open>Comparisons: every comparison with NaN is false.\<close>

fun fl_less :: "float64 \<Rightarrow> float64 \<Rightarrow> bool" where
  "fl_less (Num a) (Num b) = (a < b)"
| "fl_less NaN _ = False"
| "fl_less _ NaN = False"
| "fl_less _ NInf = False"
| "fl_less PInf _ = False"
| "fl_less NInf _ = True"
| "fl_less _ PInf = True"

definition fl_greater :: "float64 \<Rightarrow> float64 \<Rightarrow> bool" where
  "fl_greater a b = fl_less b a"

fun fl_ge :: "float64 \<Rightarrow> float64 \<Rightarrow> bool" where
  "fl_ge (Num a) (Num b) = (a \<ge> b)"
| "fl_ge NaN _ = False"
| "fl_ge _ NaN = False"
| "fl_ge PInf _ = True"
| "fl_ge _ NInf = True"
| "fl_ge _ PInf = False"
| "fl_ge NInf _ = False"

text \<open>\<^verbatim>\<open>round(x, 2)\<close> and \<^verbatim>\<open>DataFrame.round(2)\<close>: scale by 100, round half to even, scale
  back.\<close>

definition rint :: "real \<Rightarrow> int" where
  "rint x =
     (let f = \<lfloor>x\<rfloor>; d = x - of_int f
      in if d < 1/2 then f else if d > 1/2 then f + 1
         else if even f then f else f + 1)"

definition round2 :: "real \<Rightarrow> real" where
  "round2 x = of_int (rint (x * 100)) / 100"

fun fl_round2 :: "float64 \<Rightarrow> float64" where
  "fl_round2 (Num a) = Num (round2 a)"
| "fl_round2 x = x"

text \<open>\<^verbatim>\<open>Series.mean()\<close>: NaN for an empty series.\<close>

definition mean :: "real list \<Rightarrow> float64" where
  "mean xs = (if xs = [] then NaN else Num (sum_list xs / of_nat (length xs)))"

text \<open>\<^verbatim>\<open>Series.std()\<close>: the sample standard deviation (\<^verbatim>\<open>ddof=1\<close>), NaN for fewer than
  two values.\<close>

definition std :: "real list \<Rightarrow> float64" where
  "std xs =
     (if length xs < 2 then NaN
      else let m = sum_list xs / of_nat (length xs)
           in Num (sqrt (sum_list (map (\<lambda>x. (x - m)\<^sup>2) xs) / of_nat (length xs - 1))))"

subsection \<open>Group-by\<close>

text \<open>\<^verbatim>\<open>df.groupby(key)\<close>: one group per distinct key, the groups ordered by ascending
  key, the rows of a group in row order.\<close>

definition group_keys :: "('a \<Rightarrow> 'k::linorder) \<Rightarrow> 'a list \<Rightarrow> 'k list" where
  "group_keys key rows = sort (remdups (map key rows))"

definition group_rows :: "('a \<Rightarrow> 'k) \<Rightarrow> 'a list \<Rightarrow> 'k \<Rightarrow> 'a list" where
  "group_rows key rows k = filter (\<lambda>r. key r = k) rows"

section \<open>Churn metrics\<close>

record churn_data =
  churn_rate :: real
  churned_customers :: int
  at_risk_customers :: int
  total_customers :: int
  active_customers :: int
  churn_threshold_days :: int

text \<open>\<^verbatim>\<open>(current_date - last_transaction).dt.days\<close>: the whole days of the difference
  (\<^verbatim>\<open>Timedelta.days\<close> is the floor).\<close>

definition days_since_last :: "timestamp \<Rightarrow> transaction list \<Rightarrow> int list" where
  "days_since_last current_date transactions_df =
     map (\<lambda>k. (current_date
                 - Max (set (map transaction_date (group_rows customer_id transactions_df k))))
               div 86400)
         (group_keys customer_id transactions_df)"

definition churn_threshold :: int where "churn_threshold = 90"
definition at_risk_threshold :: int where "at_risk_threshold = 60"

definition get_churn_metrics :: "datasets option \<Rightarrow> timestamp \<Rightarrow> py_exception + churn_data" where
  "get_churn_metrics data current_date =
     (case data of
        None \<Rightarrow> Inl (HTTPException 503 ''Data not available'')
      | Some d \<Rightarrow> try_except_500
         (let ds = days_since_last current_date (transactions d);
              churned = int (length (filter (\<lambda>x. x > churn_threshold) ds));
              at_risk = int (length (filter (\<lambda>x. x > at_risk_threshold \<and> x \<le> churn_threshold) ds));
              total = int (length (customers d));
              rate = (if total > 0 then (of_int churned / of_int total) * 100 else 0)
          in Inr \<lparr> churn_rate = round2 rate,
                   churned_customers = churned,
                   at_risk_customers = at_risk,
                   total_customers = total,
                   active_customers = total - churned,
                   churn_threshold_days = churn_threshold \<rparr>))"

section \<open>Anomaly metrics\<close>

record large_transactions_rec =
  lt_count :: nat
  threshold :: float64
  total_value :: real
  avg_amount :: float64

record daily_volume_rec =
  anomalous_days :: nat
  upper_threshold :: float64
  lower_threshold :: float64
  normal_daily_range :: "float64 \<times> float64"

record anomaly_row =
  ra_transaction_id :: string
  ra_customer_id :: string
  ra_amount :: real
  ra_transaction_date :: timestamp

record anomaly_data =
  large_transactions :: large_transactions_rec
  daily_volume_anomalies :: daily_volume_rec
  recent_anomalies :: "anomaly_row list"

text \<open>\<^verbatim>\<open>transaction_date.dt.date\<close>: the calendar day, as the number of days since
  1970-01-01.\<close>

definition date_of :: "timestamp \<Rightarrow> int" where
  "date_of t = t div 86400"

text \<open>\<^verbatim>\<open>df.tail(n)\<close>: the last \<open>n\<close> rows, in row order.\<close>

definition tail :: "nat \<Rightarrow> 'a list \<Rightarrow> 'a list" where
  "tail n rows = drop (length rows - n) rows"

text \<open>Python's \<^verbatim>\<open>max(0, x)\<close> keeps its first argument unless \<^verbatim>\<open>x > 0\<close>.\<close>

definition max0 :: "float64 \<Rightarrow> float64" where
  "max0 x = (if fl_greater x (Num 0) then x else Num 0)"

text \<open>The format \<^verbatim>\<open>:.0f\<close> of the "normal daily range" text is kept as the number it
  prints.\<close>

fun fl_round0 :: "float64 \<Rightarrow> float64" where
  "fl_round0 (Num a) = Num (of_int (rint a))"
| "fl_round0 x = x"

definition anomaly_threshold :: "transaction list \<Rightarrow> float64" where
  "anomaly_threshold transactions_df =
     (let mean_amount = mean (map amount transactions_df);
          std_amount = std (map amount transactions_df)
      in fl_add mean_amount (fl_scale 3 std_amount))"

definition anomalous_transactions :: "transaction list \<Rightarrow> transaction list" where
  "anomalous_transactions transactions_df =
     filter (\<lambda>t. fl_greater (Num (amount t)) (anomaly_threshold transactions_df)) transactions_df"

definition to_anomaly_row :: "transaction \<Rightarrow> anomaly_row" where
  "to_anomaly_row t =
     \<lparr> ra_transaction_id = transaction_id t, ra_customer_id = customer_id t,
       ra_amount = amount t, ra_transaction_date = transaction_date t \<rparr>"

definition get_anomaly_metrics :: "datasets option \<Rightarrow> py_exception + anomaly_data" where
  "get_anomaly_metrics data =
     (case data of
        None \<Rightarrow> Inl (HTTPException 503 ''Data not available'')
      | Some d \<Rightarrow> try_except_500
         (let transactions_df = transactions d;
              thr = anomaly_threshold transactions_df;
              anom = anomalous_transactions transactions_df;
              daily_counts = map (\<lambda>k. real (length (group_rows (date_of \<circ> transaction_date) transactions_df k)))
                                 (group_keys (date_of \<circ> transaction_date) transactions_df);
              daily_mean = mean daily_counts;
              daily_std = std daily_counts;
              daily_threshold_upper = fl_add daily_mean (fl_scale 2 daily_std);
              daily_threshold_lower = max0 (fl_sub daily_mean (fl_scale 2 daily_std));
              anom_days = filter (\<lambda>c. fl_greater (Num c) daily_threshold_upper
                                        \<or> fl_less (Num c) daily_threshold_lower) daily_counts
          in Inr \<lparr> large_transactions =
                     \<lparr> lt_count = length anom,
                       threshold = fl_round2 thr,
                       total_value = round2 (sum_list (map amount anom)),
                       avg_amount = (if length anom > 0 then fl_round2 (mean (map amount anom))
                                     else Num 0) \<rparr>,
                   daily_volume_anomalies =
                     \<lparr> anomalous_days = length anom_days,
                       upper_threshold = fl_round2 daily_threshold_upper,
                       lower_threshold = fl_round2 daily_threshold_lower,
                       normal_daily_range = (fl_round0 (fl_sub daily_mean daily_std),
                                             fl_round0 (fl_add daily_mean daily_std)) \<rparr>,
                   recent_anomalies =
                     (if length anom > 0 then map to_anomaly_row (tail 10 anom) else []) \<rparr>))"

section \<open>High-value customer segments\<close>

record spending_row =
  sp_customer_id :: string
  transaction_count :: nat
  total_spent :: real
  sp_avg_order_value :: real
  first_purchase :: timestamp
  last_purchase :: timestamp

record segment_rec =
  segment :: string
  customer_count :: nat
  avg_revenue :: float64
  seg_total_revenue :: real
  percentage :: real
  min_spend :: float64
  max_spend :: float64

record segment_data =
  high_value_threshold :: float64
  total_high_value_customers :: nat
  customer_segments :: "segment_rec list"
  top_10_customers :: "spending_row list"

text \<open>\<^verbatim>\<open>transactions_df.groupby('customer_id').agg(...).round(2)\<close>, with the columns renamed
  and the index reset: one spend profile per customer that has a transaction.\<close>

definition customer_spending :: "transaction list \<Rightarrow> spending_row list" where
  "customer_spending transactions_df =
     map (\<lambda>k. let g = group_rows customer_id transactions_df k
               in \<lparr> sp_customer_id = k,
                     transaction_count = length g,
                     total_spent = round2 (sum_list (map amount g)),
                     sp_avg_order_value = round2 (sum_list (map amount g) / of_nat (length g)),
                     first_purchase = Min (set (map transaction_date g)),
                     last_purchase = Max (set (map transaction_date g)) \<rparr>)
         (group_keys customer_id transactions_df)"

text \<open>\<^verbatim>\<open>Series.quantile(q)\<close>, linear interpolation between the two order statistics around
  position \<open>q * (n - 1)\<close>; NaN for an empty series.\<close>

definition quantile :: "real list \<Rightarrow> real \<Rightarrow> float64" where
  "quantile xs q =
     (if xs = [] then NaN
      else let s = sort xs;
               n = length s;
               pos = q * real (n - 1);
               lo = nat \<lfloor>pos\<rfloor>;
               hi = min (lo + 1) (n - 1);
               g = pos - real lo
           in Num (s ! lo + (s ! hi - s ! lo) * g))"

definition series_min :: "real list \<Rightarrow> float64" where
  "series_min xs = (if xs = [] then NaN else Num (Min (set xs)))"

definition series_max :: "real list \<Rightarrow> float64" where
  "series_max xs = (if xs = [] then NaN else Num (Max (set xs)))"

definition spending_percentiles :: "real list" where
  "spending_percentiles = [95/100, 8/10, 6/10, 4/10]"

definition segment_names :: "string list" where
  "segment_names = [''Platinum'', ''Gold'', ''Silver'', ''Bronze'']"

text \<open>The rows selected in iteration \<open>i\<close> of the loop over the four tiers.\<close>

definition segment_customers :: "spending_row list \<Rightarrow> nat \<Rightarrow> real \<Rightarrow> spending_row list" where
  "segment_customers spending i percentile =
     (if i = 0 then
        filter (\<lambda>r. fl_ge (Num (total_spent r)) (quantile (map total_spent spending) percentile))
               spending
      else
        let prev_percentile = spending_percentiles ! (i - 1)
        in filter (\<lambda>r. fl_ge (Num (total_spent r)) (quantile (map total_spent spending) percentile)
                      \<and> fl_less (Num (total_spent r))
                                (quantile (map total_spent spending) prev_percentile))
                  spending)"

definition segment_entry :: "spending_row list \<Rightarrow> string \<Rightarrow> spending_row list \<Rightarrow> segment_rec" where
  "segment_entry spending name seg =
     \<lparr> segment = name,
       customer_count = length seg,
       avg_revenue = fl_round2 (mean (map total_spent seg)),
       seg_total_revenue = round2 (sum_list (map total_spent seg)),
       percentage = round2 ((real (length seg) / real (length spending)) * 100),
       min_spend = fl_round2 (series_min (map total_spent seg)),
       max_spend = fl_round2 (series_max (map total_spent seg)) \<rparr>"

definition customer_segments_of :: "spending_row list \<Rightarrow> segment_rec list" where
  "customer_segments_of spending =
     concat (map (\<lambda>(i, percentile, name).
                    let seg = segment_customers spending i percentile
                    in if length seg > 0 then [segment_entry spending name seg] else [])
                 (enumerate 0 (zip spending_percentiles segment_names)))"

text \<open>\<^verbatim>\<open>sort_values('total_spent', ascending=False)\<close>; rows of equal spend are kept in row
  order here (pandas does not fix their order).\<close>

definition get_high_value_customers :: "datasets option \<Rightarrow> py_exception + segment_data" where
  "get_high_value_customers data =
     (case data of
        None \<Rightarrow> Inl (HTTPException 503 ''Data not available'')
      | Some d \<Rightarrow> try_except_500
         (let spending = customer_spending (transactions d);
              high_value_thr = quantile (map total_spent spending) (8/10);
              high_value_customers =
                sort_key (\<lambda>r. - total_spent r)
                  (filter (\<lambda>r. fl_ge (Num (total_spent r)) high_value_thr) spending)
          in Inr \<lparr> high_value_threshold = fl_round2 high_value_thr,
                   total_high_value_customers = length high_value_customers,
                   customer_segments = customer_segments_of spending,
                   top_10_customers = take 10 high_value_customers \<rparr>))"

section \<open>Revenue analytics\<close>

record revenue_row =
  period_key :: int
  row_transactions :: nat
  revenue :: real
  avg_order_value :: real
  unique_customers :: nat

record summary_rec =
  avg_daily_revenue :: float64
  peak_revenue_day :: revenue_row
  revenue_growth :: float64

record analytics_data =
  a_period :: string
  total_revenue :: real
  total_transactions :: nat
  data_points :: nat
  revenue_trends :: "revenue_row list"
  summary :: summary_rec

text \<open>
  The bucket of a timestamp. A bucket is named by its ordinal: the day number for
  \<^verbatim>\<open>dt.date\<close>, the number of the Monday-to-Sunday week for \<^verbatim>\<open>dt.to_period('W')\<close>
  (1970-01-01 was a Thursday), and \<open>12 * year + (month - 1)\<close> for \<^verbatim>\<open>dt.to_period('M')\<close>,
  with the proleptic Gregorian calendar. The text that \<^verbatim>\<open>astype(str)\<close> makes of the
  bucket is not modelled.
\<close>

definition week_of :: "timestamp \<Rightarrow> int" where
  "week_of t = (date_of t + 3) div 7"

definition month_of :: "timestamp \<Rightarrow> int" where
  "month_of t =
     (let z = date_of t + 719468;
          era = z div 146097;
          doe = z mod 146097;
          yoe = (doe - doe div 1460 + doe div 36524 - doe div 146096) div 365;
          doy = doe - (365 * yoe + yoe div 4 - yoe div 100);
          mp = (5 * doy + 2) div 153;
          m = (if mp < 10 then mp + 3 else mp - 9);
          y = yoe + era * 400 + (if m \<le> 2 then 1 else 0)
      in 12 * y + (m - 1))"

text \<open>\<^verbatim>\<open>groupby(bucket).agg({'amount': ['count', 'sum', 'mean'], 'customer_id':
  'nunique'}).round(2)\<close> with the index reset.\<close>

definition revenue_by :: "(timestamp \<Rightarrow> int) \<Rightarrow> transaction list \<Rightarrow> revenue_row list" where
  "revenue_by bucket transactions_df =
     map (\<lambda>k. let g = group_rows (bucket \<circ> transaction_date) transactions_df k
               in \<lparr> period_key = k,
                     row_transactions = length g,
                     revenue = round2 (sum_list (map amount g)),
                     avg_order_value = round2 (sum_list (map amount g) / of_nat (length g)),
                     unique_customers = length (remdups (map customer_id g)) \<rparr>)
         (group_keys (bucket \<circ> transaction_date) transactions_df)"

text \<open>\<^verbatim>\<open>revenue_data.loc[revenue_data['revenue'].idxmax()]\<close>: the first row of maximal
  revenue; \<^verbatim>\<open>idxmax\<close> raises \<^verbatim>\<open>ValueError\<close> on an empty series.\<close>

definition idxmax_row :: "revenue_row list \<Rightarrow> py_exception + revenue_row" where
  "idxmax_row rows =
     (case filter (\<lambda>r. revenue r = Max (set (map revenue rows))) rows of
        [] \<Rightarrow> Inl (ValueError ''attempt to get argmax of an empty sequence'')
      | r # _ \<Rightarrow> Inr r)"

definition revenue_growth_of :: "revenue_row list \<Rightarrow> float64" where
  "revenue_growth_of rows =
     (if length rows > 1
      then fl_round2 (fl_scale 100 (fl_sub (fl_div (revenue (last rows)) (revenue (hd rows)))
                                           (Num 1)))
      else Num 0)"

definition get_revenue_analytics :: "datasets option \<Rightarrow> string \<Rightarrow> py_exception + analytics_data" where
  "get_revenue_analytics data period =
     (case data of
        None \<Rightarrow> Inl (HTTPException 503 ''Data not available'')
      | Some d \<Rightarrow> try_except_500
         (let transactions_df = transactions d
          in case (if period = ''daily'' then Inr (revenue_by date_of transactions_df)
                   else if period = ''weekly'' then Inr (revenue_by week_of transactions_df)
                   else if period = ''monthly'' then Inr (revenue_by month_of transactions_df)
                   else Inl (HTTPException 400 ''Invalid period. Use: daily, weekly, or monthly''))
             of Inl e \<Rightarrow> Inl e
              | Inr revenue_data \<Rightarrow>
                 (case idxmax_row revenue_data of
                    Inl e \<Rightarrow> Inl e
                  | Inr peak \<Rightarrow>
                     Inr \<lparr> a_period = period,
                           total_revenue = round2 (sum_list (map amount transactions_df)),
                           total_transactions = length transactions_df,
                           data_points = length revenue_data,
                           revenue_trends = revenue_data,
                           summary =
                             \<lparr> avg_daily_revenue = fl_round2 (mean (map revenue revenue_data)),
                               peak_revenue_day = peak,
                               revenue_growth = revenue_growth_of revenue_data \<rparr> \<rparr>)))"

section \<open>Notions of the specification\<close>

text \<open>The days since the last transaction of one customer, and the number of customers
  with a transaction that are neither churned nor at risk: the "active" class of the
  specification's three-way partition.\<close>

definition customer_days :: "timestamp \<Rightarrow> transaction list \<Rightarrow> string \<Rightarrow> int" where
  "customer_days now ts c =
     (now - Max (set (map transaction_date (group_rows customer_id ts c)))) div 86400"

definition spec_active_count :: "timestamp \<Rightarrow> transaction list \<Rightarrow> int" where
  "spec_active_count now ts =
     int (length (filter (\<lambda>c. customer_days now ts c \<le> 60) (remdups (map customer_id ts))))"

section \<open>Rounding and grouping lemmas\<close>

lemma rint_ge: "of_int n \<le> x \<Longrightarrow> n \<le> rint x"
proof -
  assume "of_int n \<le> x"
  then have "n \<le> \<lfloor>x\<rfloor>" by (simp add: le_floor_iff)
  then show ?thesis by (simp add: rint_def Let_def)
qed

lemma rint_le: "x \<le> of_int n \<Longrightarrow> rint x \<le> n"
proof -
  assume h: "x \<le> of_int n"
  then have f: "\<lfloor>x\<rfloor> \<le> n" by (simp add: floor_le_iff)
  show ?thesis
  proof (cases "\<lfloor>x\<rfloor> = n")
    case True
    then have "x - of_int \<lfloor>x\<rfloor> \<le> 0" using h by simp
    then show ?thesis using True by (simp add: rint_def Let_def)
  next
    case False
    then have "\<lfloor>x\<rfloor> + 1 \<le> n" using f by simp
    then show ?thesis by (simp add: rint_def Let_def)
  qed
qed

lemma rint_of_int [simp]: "rint (of_int n) = n"
  by (simp add: rint_def Let_def)

lemma rint_numeral [simp]: "rint (numeral k) = numeral k"
  using rint_of_int [of "numeral k"] by simp

lemma rint_0 [simp]: "rint 0 = 0"
  using rint_of_int [of 0] by simp

lemma round2_nonneg: "0 \<le> x \<Longrightarrow> 0 \<le> round2 x"
  using rint_ge [of 0 "x * 100"] by (simp add: round2_def)

lemma round2_le_100: "x \<le> 100 \<Longrightarrow> round2 x \<le> 100"
  using rint_le [of "x * 100" 10000] by (simp add: round2_def)

lemma group_keys_distinct: "distinct (group_keys key rows)"
  by (simp add: group_keys_def)

lemma group_keys_set: "set (group_keys key rows) = key ` set rows"
  by (simp add: group_keys_def)

lemma length_group_keys: "length (group_keys key rows) = card (key ` set rows)"
  using distinct_card [OF group_keys_distinct [of key rows]] by (simp add: group_keys_set)

section \<open>Churn metrics: properties\<close>

lemma days_since_last_conv:
  "days_since_last now ts = map (customer_days now ts) (group_keys customer_id ts)"
  by (simp add: days_since_last_def customer_days_def)

lemma count_days:
  "int (length (filter P (days_since_last now ts)))
   = int (card {c \<in> customer_id ` set ts. P (customer_days now ts c)})"
proof -
  have "length (filter P (days_since_last now ts))
        = length (filter (P \<circ> customer_days now ts) (group_keys customer_id ts))"
    by (simp add: days_since_last_conv filter_map)
  also have "\<dots> = card ({c. (P \<circ> customer_days now ts) c} \<inter> set (group_keys customer_id ts))"
    by (rule distinct_length_filter [OF group_keys_distinct])
  also have "{c. (P \<circ> customer_days now ts) c} \<inter> set (group_keys customer_id ts)
             = {c \<in> customer_id ` set ts. P (customer_days now ts c)}"
    by (auto simp: group_keys_set)
  finally show ?thesis by simp
qed

lemma length_days: "length (days_since_last now ts) = card (customer_id ` set ts)"
  by (simp add: days_since_last_def length_group_keys)

lemma get_churn_metrics_Some:
  "get_churn_metrics (Some d) now = Inr
     \<lparr> churn_rate = round2 (if int (length (customers d)) > 0
          then (of_int (int (length (filter (\<lambda>x. x > 90) (days_since_last now (transactions d)))))
                / of_int (int (length (customers d)))) * 100 else 0),
       churned_customers = int (length (filter (\<lambda>x. x > 90) (days_since_last now (transactions d)))),
       at_risk_customers = int (length (filter (\<lambda>x. x > 60 \<and> x \<le> 90) (days_since_last now (transactions d)))),
       total_customers = int (length (customers d)),
       active_customers = int (length (customers d))
          - int (length (filter (\<lambda>x. x > 90) (days_since_last now (transactions d)))),
       churn_threshold_days = 90 \<rparr>"
  by (simp add: get_churn_metrics_def try_except_500_def Let_def churn_threshold_def
      at_risk_threshold_def)

lemma churned_le_total:
  assumes "customer_id ` set ts \<subseteq> c_customer_id ` set cs"
  shows "length (filter P (days_since_last now ts)) \<le> length cs"
proof -
  have "length (filter P (days_since_last now ts)) \<le> length (days_since_last now ts)"
    by simp
  also have "\<dots> = card (customer_id ` set ts)" by (rule length_days)
  also have "\<dots> \<le> card (c_customer_id ` set cs)"
    by (rule card_mono) (use assms in auto)
  also have "\<dots> \<le> card (set cs)" by (rule card_image_le) simp
  also have "\<dots> \<le> length cs" by (rule card_length)
  finally show ?thesis .
qed

text \<open>
  Claim C2, as the code has it. For every loaded data set the churn result exists, its
  churn rate is at least 0, and \<open>active_customers\<close> is \<open>total_customers - churned\<close>: so
  \<open>active + at_risk + churned\<close> is \<open>total_customers + at_risk\<close>, never below
  \<open>total_customers\<close>, and equal to it exactly when no customer is at risk. When every
  transaction's \<open>customer_id\<close> occurs in Customers (no orphans), the churn rate is at most
  100 and \<open>active_customers\<close> is not negative.
\<close>

theorem churn_invariants:
  "\<exists>r. get_churn_metrics (Some d) now = Inr r
     \<and> 0 \<le> churn_rate r
     \<and> active_customers r + churned_customers r = total_customers r
     \<and> active_customers r + at_risk_customers r + churned_customers r
         = total_customers r + at_risk_customers r
     \<and> (active_customers r + at_risk_customers r + churned_customers r = total_customers r
          \<longleftrightarrow> at_risk_customers r = 0)
     \<and> (customer_id ` set (transactions d) \<subseteq> c_customer_id ` set (customers d)
          \<longrightarrow> churn_rate r \<le> 100 \<and> 0 \<le> active_customers r)"
proof -
  let ?ds = "days_since_last now (transactions d)"
  let ?ch = "length (filter (\<lambda>x. x > 90) ?ds)"
  let ?n = "length (customers d)"
  have nonneg: "0 \<le> round2 (if int ?n > 0 then (of_int (int ?ch) / of_int (int ?n)) * 100 else 0)"
    by (rule round2_nonneg) simp
  have le: "round2 (if int ?n > 0 then (of_int (int ?ch) / of_int (int ?n)) * 100 else 0) \<le> 100"
    if "customer_id ` set (transactions d) \<subseteq> c_customer_id ` set (customers d)"
  proof (rule round2_le_100)
    have "?ch \<le> ?n" by (rule churned_le_total [OF that])
    then have "real ?ch \<le> real ?n" by simp
    then show "(if int ?n > 0 then (of_int (int ?ch) / of_int (int ?n)) * 100 else 0) \<le> (100::real)"
      by (simp add: divide_le_eq)
  qed
  have act: "?ch \<le> ?n"
    if "customer_id ` set (transactions d) \<subseteq> c_customer_id ` set (customers d)"
    by (rule churned_le_total [OF that])
  show ?thesis
    unfolding get_churn_metrics_Some using nonneg le act by simp
qed

text \<open>The theorem at one customer with one transaction of their own.\<close>

theorem churn_invariants_witness:
  "customer_id ` set [\<lparr> transaction_id = ''T1'', customer_id = ''C1'',
                        transaction_date = 0, amount = 100, status = ''completed'' \<rparr>]
     \<subseteq> c_customer_id ` set [\<lparr> c_customer_id = ''C1'', registration_date = 0, age = None,
                        c_segment = ''Gold'' \<rparr>]
   \<and> (\<exists>r. get_churn_metrics
          (Some \<lparr> customers =
                    [\<lparr> c_customer_id = ''C1'', registration_date = 0, age = None,
                        c_segment = ''Gold'' \<rparr>],
                  transactions =
                    [\<lparr> transaction_id = ''T1'', customer_id = ''C1'',
                        transaction_date = 0, amount = 100, status = ''completed'' \<rparr>] \<rparr>)
          (100 * 86400) = Inr r
        \<and> churn_rate r \<le> 100 \<and> 0 \<le> active_customers r)"
  using churn_invariants [of "\<lparr> customers =
                    [\<lparr> c_customer_id = ''C1'', registration_date = 0, age = None,
                        c_segment = ''Gold'' \<rparr>],
                  transactions =
                    [\<lparr> transaction_id = ''T1'', customer_id = ''C1'',
                        transaction_date = 0, amount = 100, status = ''completed'' \<rparr>] \<rparr>"
                  "100 * 86400"]
  by auto

text \<open>
  Claim C2 as stated fails: with one customer and two orphan customer ids, both last seen
  100 days ago, the churn rate is 200 and \<open>active_customers\<close> is -1.
\<close>

theorem churn_rate_exceeds_100_with_orphans:
  "(case get_churn_metrics
          (Some \<lparr> customers =
                    [\<lparr> c_customer_id = ''C1'', registration_date = 0, age = None,
                        c_segment = ''Gold'' \<rparr>],
                  transactions =
                    [\<lparr> transaction_id = ''T1'', customer_id = ''C8'',
                        transaction_date = 0, amount = 100, status = ''completed'' \<rparr>,
                     \<lparr> transaction_id = ''T2'', customer_id = ''C9'',
                        transaction_date = 0, amount = 100, status = ''completed'' \<rparr>] \<rparr>)
          (100 * 86400)
    of Inl e \<Rightarrow> False
     | Inr r \<Rightarrow> churn_rate r = 200
               \<and> \<not> (0 \<le> churn_rate r \<and> churn_rate r \<le> 100
                    \<and> active_customers r + at_risk_customers r + churned_customers r
                        \<le> total_customers r))"
  by (simp add: get_churn_metrics_Some days_since_last_def group_keys_def group_rows_def
      round2_def)

text \<open>
  Claim C8, as the code has it. For every loaded data set the churn result exists;
  \<open>churned_customers\<close> counts the customer ids of Transactions whose last transaction is
  more than 90 days old, \<open>at_risk_customers\<close> those with more than 60 and at most 90 days;
  \<open>total_customers\<close> is the size of the Customer collection; and \<open>active_customers\<close> is
  \<open>total_customers - churned_customers\<close> (so it includes the customers at risk and the
  customers without transactions). For Customers = [C1] and a single C1 transaction 10
  days before now the result is churned 0, at risk 0, active 1, churn rate 0.
\<close>

theorem churn_classification:
  "(\<exists>r. get_churn_metrics (Some d) now = Inr r
      \<and> churned_customers r
          = int (card {c \<in> customer_id ` set (transactions d).
                        customer_days now (transactions d) c > 90})
      \<and> at_risk_customers r
          = int (card {c \<in> customer_id ` set (transactions d).
                        60 < customer_days now (transactions d) c
                        \<and> customer_days now (transactions d) c \<le> 90})
      \<and> total_customers r = int (length (customers d))
      \<and> active_customers r = total_customers r - churned_customers r)
   \<and> get_churn_metrics
        (Some \<lparr> customers = [c1],
                transactions = [t\<lparr> customer_id := c_customer_id c1,
                                   transaction_date := now - 10 * 86400 \<rparr>] \<rparr>) now
      = Inr \<lparr> churn_rate = 0, churned_customers = 0, at_risk_customers = 0,
              total_customers = 1, active_customers = 1, churn_threshold_days = 90 \<rparr>"
proof -
  have a: "int (length (filter (\<lambda>x. x > 90) (days_since_last now (transactions d))))
      = int (card {c \<in> customer_id ` set (transactions d).
                        customer_days now (transactions d) c > 90})"
    by (rule count_days)
  have b: "int (length (filter (\<lambda>x. x > 60 \<and> x \<le> 90) (days_since_last now (transactions d))))
      = int (card {c \<in> customer_id ` set (transactions d).
                        60 < customer_days now (transactions d) c
                        \<and> customer_days now (transactions d) c \<le> 90})"
    by (rule count_days)
  have c: "days_since_last now [t\<lparr> customer_id := c_customer_id c1,
                                   transaction_date := now - 864000 \<rparr>] = [10]"
    by (simp add: days_since_last_def group_keys_def group_rows_def)
  have d: "get_churn_metrics
        (Some \<lparr> customers = [c1],
                transactions = [t\<lparr> customer_id := c_customer_id c1,
                                   transaction_date := now - 10 * 86400 \<rparr>] \<rparr>) now
      = Inr \<lparr> churn_rate = 0, churned_customers = 0, at_risk_customers = 0,
              total_customers = 1, active_customers = 1, churn_threshold_days = 90 \<rparr>"
    unfolding get_churn_metrics_Some by (simp add: c round2_def)
  show ?thesis
    unfolding get_churn_metrics_Some [of d now] using a b d by simp
qed

text \<open>
  Claim C8 as stated fails: customer C2 has no transaction, so the specification keeps C2
  out of the churned / at-risk / active partition (one active customer, C1), but the code
  reports two active customers.
\<close>

theorem churn_active_counts_customers_without_transactions:
  "(case get_churn_metrics
          (Some \<lparr> customers =
                    [\<lparr> c_customer_id = ''C1'', registration_date = 0, age = None,
                        c_segment = ''Gold'' \<rparr>,
                     \<lparr> c_customer_id = ''C2'', registration_date = 0, age = None,
                        c_segment = ''Gold'' \<rparr>],
                  transactions =
                    [\<lparr> transaction_id = ''T1'', customer_id = ''C1'',
                        transaction_date = 90 * 86400, amount = 100,
                        status = ''completed'' \<rparr>] \<rparr>) (100 * 86400)
    of Inl e \<Rightarrow> False
     | Inr r \<Rightarrow> active_customers r = 2)
   \<and> spec_active_count (100 * 86400)
        [\<lparr> transaction_id = ''T1'', customer_id = ''C1'', transaction_date = 90 * 86400,
            amount = 100, status = ''completed'' \<rparr>] = 1"
  by (simp add: get_churn_metrics_Some days_since_last_def group_keys_def group_rows_def
      spec_active_count_def customer_days_def)

section \<open>Revenue analytics: properties\<close>

text \<open>
  Claim C1 at its failing input. With a loaded data set whose Transactions collection is
  empty, the revenue analytics do not return zero-valued aggregates: \<^verbatim>\<open>idxmax\<close> of the
  empty revenue column raises, and the handler turns that into the status 500, for each
  of the three periods.
\<close>

theorem revenue_analytics_empty_transactions:
  "get_revenue_analytics (Some \<lparr> customers = cs, transactions = [] \<rparr>) ''daily''
     = Inl (HTTPExceptionFrom 500 (ValueError ''attempt to get argmax of an empty sequence''))
   \<and> get_revenue_analytics (Some \<lparr> customers = cs, transactions = [] \<rparr>) ''weekly''
     = Inl (HTTPExceptionFrom 500 (ValueError ''attempt to get argmax of an empty sequence''))
   \<and> get_revenue_analytics (Some \<lparr> customers = cs, transactions = [] \<rparr>) ''monthly''
     = Inl (HTTPExceptionFrom 500 (ValueError ''attempt to get argmax of an empty sequence''))"
  by (simp add: get_revenue_analytics_def try_except_500_def revenue_by_def group_keys_def
      idxmax_row_def)

text \<open>
  Claim C4 at its failing input. The period selector \<^verbatim>\<open>invalid\<close> raises the status 400
  inside the \<^verbatim>\<open>try\<close> block, and the handler of that block replaces it by the generic
  status 500: what the caller receives is the 500, whatever the data.
\<close>

theorem invalid_period_is_reported_as_500:
  "get_revenue_analytics (Some d) ''invalid''
     = Inl (HTTPExceptionFrom 500
              (HTTPException 400 ''Invalid period. Use: daily, weekly, or monthly''))
   \<and> status_code (HTTPExceptionFrom 500
              (HTTPException 400 ''Invalid period. Use: daily, weekly, or monthly'')) = Some 500"
  by (simp add: get_revenue_analytics_def try_except_500_def)

lemma invalid_period_general:
  "period \<notin> {''daily'', ''weekly'', ''monthly''} \<Longrightarrow>
   get_revenue_analytics (Some d) period
     = Inl (HTTPExceptionFrom 500
              (HTTPException 400 ''Invalid period. Use: daily, weekly, or monthly''))"
  by (simp add: get_revenue_analytics_def try_except_500_def)

text \<open>
  Claim C5 at its failing input. Two daily buckets, the first with revenue 0 and the
  second with revenue 100: the division is not guarded, the request succeeds and
  \<open>revenue_growth\<close> is plus infinity.
\<close>

theorem revenue_growth_zero_first_bucket:
  "get_revenue_analytics
     (Some \<lparr> customers = [],
             transactions =
               [\<lparr> transaction_id = ''T1'', customer_id = ''C1'', transaction_date = 0,
                   amount = 0, status = ''completed'' \<rparr>,
                \<lparr> transaction_id = ''T2'', customer_id = ''C1'', transaction_date = 86400,
                   amount = 100, status = ''completed'' \<rparr>] \<rparr>) ''daily''
   = Inr \<lparr> a_period = ''daily'', total_revenue = 100, total_transactions = 2, data_points = 2,
           revenue_trends =
             [\<lparr> period_key = 0, row_transactions = 1, revenue = 0, avg_order_value = 0,
                 unique_customers = 1 \<rparr>,
              \<lparr> period_key = 1, row_transactions = 1, revenue = 100, avg_order_value = 100,
                 unique_customers = 1 \<rparr>],
           summary =
             \<lparr> avg_daily_revenue = Num 50,
               peak_revenue_day =
                 \<lparr> period_key = 1, row_transactions = 1, revenue = 100, avg_order_value = 100,
                   unique_customers = 1 \<rparr>,
               revenue_growth = PInf \<rparr> \<rparr>"
  by code_simp

text \<open>The parts of C5 that the code does satisfy: the formula where the first bucket's
  revenue is not zero, the value 0 for fewer than two buckets, and the two-month
  scenario.\<close>

lemma revenue_growth_formula:
  "length rows > 1 \<Longrightarrow> revenue (hd rows) \<noteq> 0 \<Longrightarrow>
   revenue_growth_of rows = Num (round2 ((revenue (last rows) / revenue (hd rows) - 1) * 100))"
  by (simp add: revenue_growth_of_def fl_div_def fl_sub_def mult.commute)

lemma revenue_growth_few_buckets:
  "length rows < 2 \<Longrightarrow> revenue_growth_of rows = Num 0"
  by (simp add: revenue_growth_of_def)

lemma revenue_growth_two_months:
  "get_revenue_analytics
     (Some \<lparr> customers = [],
             transactions =
               [\<lparr> transaction_id = ''T1'', customer_id = ''C1'', transaction_date = 0,
                   amount = 100, status = ''completed'' \<rparr>,
                \<lparr> transaction_id = ''T2'', customer_id = ''C1'', transaction_date = 40 * 86400,
                   amount = 150, status = ''completed'' \<rparr>] \<rparr>) ''monthly''
   = Inr \<lparr> a_period = ''monthly'', total_revenue = 250, total_transactions = 2, data_points = 2,
           revenue_trends =
             [\<lparr> period_key = 23640, row_transactions = 1, revenue = 100, avg_order_value = 100,
                 unique_customers = 1 \<rparr>,
              \<lparr> period_key = 23641, row_transactions = 1, revenue = 150, avg_order_value = 150,
                 unique_customers = 1 \<rparr>],
           summary =
             \<lparr> avg_daily_revenue = Num 125,
               peak_revenue_day =
                 \<lparr> period_key = 23641, row_transactions = 1, revenue = 150, avg_order_value = 150,
                   unique_customers = 1 \<rparr>,
               revenue_growth = Num 50 \<rparr> \<rparr>"
  by code_simp

end
